theory Spec2Isabelle
  imports Main "HOL-Library.Char_ord" "HOL-Library.List_Lexorder" "HOL-Library.Sublist"
    "HOL-Library.Multiset"
begin

section \<open>Strings, dictionaries and errors\<close>

text \<open>
  A Python \<open>str\<close> is modelled as a \<^typ>\<open>string\<close>; one \<^typ>\<open>char\<close> stands for one code
  point below 256. The order on strings is the lexicographic order on code points
  (\<open>Char_ord\<close>, \<open>List_Lexorder\<close>), which is the order Python compares \<open>str\<close> values by,
  so \<^const>\<open>sort\<close>, \<^const>\<open>sort_key\<close> (stable, as \<open>sorted\<close> is) and
  \<^const>\<open>sorted_list_of_set\<close> stand for \<open>sorted(...)\<close>.
\<close>

datatype py_error = IndexError

text \<open>\<open>xs[i]\<close> for a non-negative literal index: out of range raises.\<close>

definition getitem :: "'a list \<Rightarrow> nat \<Rightarrow> py_error + 'a" where
  "getitem xs i = (if i < length xs then Inr (xs ! i) else Inl IndexError)"

text \<open>\<open>d.get(key, default)\<close>, the looked-up field given as an option.\<close>

definition dict_get :: "'a option \<Rightarrow> 'a \<Rightarrow> 'a" where
  "dict_get v dflt = (case v of None \<Rightarrow> dflt | Some x \<Rightarrow> x)"

text \<open>\<open>s.split(sep)\<close> for a separator of one character: never an empty list.\<close>

fun str_split :: "string \<Rightarrow> char \<Rightarrow> string list" where
  "str_split [] sep = [[]]"
| "str_split (c # cs) sep =
     (if c = sep then [] # str_split cs sep
      else (case str_split cs sep of [] \<Rightarrow> [[c]] | p # ps \<Rightarrow> (c # p) # ps))"

text \<open>
  \<open>s.replace(old, new)\<close>: every occurrence of \<open>old\<close>, found from left to right without
  overlap, is replaced; an empty \<open>old\<close> matches before every character and at the end.
\<close>

function str_replace :: "string \<Rightarrow> string \<Rightarrow> string \<Rightarrow> string" where
  "str_replace [] old new = (if old = [] then new else [])"
| "str_replace (c # cs) old new =
     (if old = [] then new @ c # str_replace cs old new
      else if prefix old (c # cs) then new @ str_replace (drop (length old) (c # cs)) old new
      else c # str_replace cs old new)"
  by pat_completeness auto
termination
  by (relation "measure (\<lambda>(s, old, new). length s)") auto

section \<open>The data model\<close>

text \<open>A role as the API returns it: a JSON object, any of whose fields may be missing.\<close>

record role =
  r_name :: "string option"
  r_title :: "string option"
  r_description :: "string option"
  r_stage :: "string option"
  r_includedPermissions :: "string list option"
  r_etag :: "string option"

text \<open>The summary \<open>{'name', 'title', 'stage'}\<close> stored in a grantor list.\<close>

record role_summary =
  s_name :: string
  s_title :: string
  s_stage :: string

text \<open>An entry of \<open>roles_data\<close>.\<close>

record role_data =
  rd_name :: string
  rd_title :: string
  rd_description :: string
  rd_stage :: string
  rd_included_permissions :: "string list"
  rd_etag :: string

text \<open>An entry of \<open>permissions_data\<close>.\<close>

record permission =
  p_name :: string
  p_service :: string
  p_resource :: string
  p_action :: string
  p_granted_by_roles :: "role_summary list"

record metadata =
  md_total_roles :: nat
  md_total_permissions :: nat
  md_last_updated :: string
  md_source :: string

record dataset =
  ds_roles :: "role_data list"
  ds_permissions :: "permission list"
  ds_metadata :: metadata

section \<open>\<open>build_dataset\<close>\<close>

text \<open>\<open>perms = role.get('includedPermissions', [])\<close>\<close>

definition included :: "role \<Rightarrow> string list" where
  "included role = dict_get (r_includedPermissions role) []"

definition summary :: "role \<Rightarrow> role_summary" where
  "summary role =
     \<lparr>s_name = dict_get (r_name role) [],
      s_title = dict_get (r_title role) [],
      s_stage = dict_get (r_stage role) ''GA''\<rparr>"

text \<open>
  The state of the first loop: the set \<open>all_permissions\<close> and the dictionary
  \<open>permission_to_roles\<close>. \<open>add_grant\<close> is the body of the inner loop (one permission of one
  role), \<open>scan_role\<close> the body of the outer one.
\<close>

type_synonym index = "string set \<times> (string \<rightharpoonup> role_summary list)"

definition add_grant :: "role \<Rightarrow> index \<Rightarrow> string \<Rightarrow> index" where
  "add_grant role st perm =
     (let all_permissions = insert perm (fst st);
          permission_to_roles =
            (if snd st perm = None then (snd st)(perm \<mapsto> []) else snd st)
      in (all_permissions,
          permission_to_roles(perm \<mapsto> dict_get (permission_to_roles perm) [] @ [summary role])))"

definition scan_role :: "index \<Rightarrow> role \<Rightarrow> index" where
  "scan_role st role = foldl (add_grant role) st (included role)"

definition role_record :: "role \<Rightarrow> role_data" where
  "role_record role =
     \<lparr>rd_name = dict_get (r_name role) [],
      rd_title = dict_get (r_title role) [],
      rd_description = dict_get (r_description role) [],
      rd_stage = dict_get (r_stage role) ''GA'',
      rd_included_permissions = dict_get (r_includedPermissions role) [],
      rd_etag = dict_get (r_etag role) []\<rparr>"

text \<open>The body of the third loop: one permission name to its record.\<close>

definition permission_record ::
  "(string \<rightharpoonup> role_summary list) \<Rightarrow> string \<Rightarrow> py_error + permission" where
  "permission_record permission_to_roles perm =
     (let parts = str_split perm (CHR ''.'') in
      case (if parts \<noteq> [] then getitem parts 0 else Inr []) of
        Inl e \<Rightarrow> Inl e
      | Inr service \<Rightarrow>
     (case (if 1 < length parts then getitem parts 1 else Inr []) of
        Inl e \<Rightarrow> Inl e
      | Inr resource \<Rightarrow>
     (case (if 2 < length parts then getitem parts 2 else Inr []) of
        Inl e \<Rightarrow> Inl e
      | Inr action \<Rightarrow>
          Inr \<lparr>p_name = perm, p_service = service, p_resource = resource, p_action = action,
               p_granted_by_roles = dict_get (permission_to_roles perm) []\<rparr>)))"

fun permissions_loop ::
  "(string \<rightharpoonup> role_summary list) \<Rightarrow> permission list \<Rightarrow> string list \<Rightarrow> py_error + permission list"
where
  "permissions_loop permission_to_roles permissions_data [] = Inr permissions_data"
| "permissions_loop permission_to_roles permissions_data (perm # rest) =
     (case permission_record permission_to_roles perm of
        Inl e \<Rightarrow> Inl e
      | Inr entry \<Rightarrow> permissions_loop permission_to_roles (permissions_data @ [entry]) rest)"

text \<open>
  \<open>utcnow\<close> is \<open>datetime.utcnow().isoformat()\<close>, the one input of the function besides
  the role list.
\<close>

definition build_dataset :: "role list \<Rightarrow> string \<Rightarrow> py_error + dataset" where
  "build_dataset roles utcnow =
     (let st = foldl scan_role ({}, Map.empty) roles;
          all_permissions = fst st;
          permission_to_roles = snd st;
          roles_data = map role_record roles
      in case permissions_loop permission_to_roles [] (sorted_list_of_set all_permissions) of
           Inl e \<Rightarrow> Inl e
         | Inr permissions_data \<Rightarrow>
             Inr \<lparr>ds_roles = roles_data,
                  ds_permissions = permissions_data,
                  ds_metadata =
                    \<lparr>md_total_roles = length roles_data,
                     md_total_permissions = length permissions_data,
                     md_last_updated = utcnow @ ''Z'',
                     md_source = ''Google Cloud IAM API''\<rparr>\<rparr>)"

section \<open>Library functions used by the renderers\<close>

text \<open>
  \<open>str.lower\<close> on code points below 256: the letters A to Z and the capital letters of
  Latin-1 (192 to 222, but not the multiplication sign 215) move up by 32.
\<close>

definition char_lower :: "char \<Rightarrow> char" where
  "char_lower c =
     (let n = (of_char c :: nat)
      in if (65 \<le> n \<and> n \<le> 90) \<or> (192 \<le> n \<and> n \<le> 222 \<and> n \<noteq> 215)
         then char_of (n + 32) else c)"

definition str_lower :: "string \<Rightarrow> string" where
  "str_lower s = map char_lower s"

text \<open>\<open>html.escape(s)\<close> with \<open>quote=True\<close>: five replacements, the ampersand first.\<close>

definition escape :: "string \<Rightarrow> string" where
  \<open>escape s =
     (let s = str_replace s ''&'' ''&amp;'';
          s = str_replace s ''<'' ''&lt;'';
          s = str_replace s ''>'' ''&gt;'';
          s = str_replace s ''"'' ''&quot;'';
          s = str_replace s [CHR 0x27] ''&#x27;''
      in s)\<close>

text \<open>
  \<open>urllib.parse.quote(s)\<close> with the default \<open>safe='/'\<close>: the string is encoded in UTF-8
  (two bytes for a code point from 128 to 255), and every byte that is not an ASCII
  letter, a digit, one of \<open>_.-~\<close> or \<open>/\<close> becomes \<open>%XX\<close> in upper-case hexadecimal.
\<close>

definition always_safe :: "char \<Rightarrow> bool" where
  "always_safe c \<longleftrightarrow>
     c \<in> set (''ABCDEFGHIJKLMNOPQRSTUVWXYZ'' @ ''abcdefghijklmnopqrstuvwxyz'' @
              ''0123456789'' @ ''_.-~'')"

definition hexdigit :: "nat \<Rightarrow> char" where
  "hexdigit n = ''0123456789ABCDEF'' ! (n mod 16)"

definition utf8 :: "char \<Rightarrow> nat list" where
  "utf8 c =
     (let n = (of_char c :: nat)
      in if n < 128 then [n] else [192 + n div 64, 128 + n mod 64])"

definition quote_byte :: "nat \<Rightarrow> string" where
  "quote_byte b =
     (if b < 128 \<and> (always_safe (char_of b) \<or> char_of b = CHR ''/'') then [char_of b]
      else [CHR ''%'', hexdigit (b div 16), hexdigit b])"

definition quote :: "string \<Rightarrow> string" where
  "quote s = concat (map quote_byte (concat (map utf8 s)))"

text \<open>\<open>str(n)\<close> for the length of a list: decimal digits.\<close>

fun str_nat :: "nat \<Rightarrow> string" where
  "str_nat n =
     (if n < 10 then [''0123456789'' ! n]
      else str_nat (n div 10) @ [''0123456789'' ! (n mod 10)])"

section \<open>The page renderers\<close>

definition BASE_URL :: string where
  "BASE_URL = ''https://gcpiam.com''"

text \<open>The fixed tail of the head template, from the style sheet to the back link.\<close>

definition head_style :: string where
  \<open>head_style =
      ''    <style>\<newline>'' @
      ''        :root {\<newline>'' @
      ''            --bg-primary: #ffffff;\<newline>'' @
      ''            --bg-secondary: #f5f5f5;\<newline>'' @
      ''            --text-primary: #1a1a1a;\<newline>'' @
      ''            --text-secondary: #666666;\<newline>'' @
      ''            --border-color: #e0e0e0;\<newline>'' @
      ''            --accent: #1a73e8;\<newline>'' @
      ''        }\<newline>'' @
      ''        @media (prefers-color-scheme: dark) {\<newline>'' @
      ''            :root {\<newline>'' @
      ''                --bg-primary: #1a1a1a;\<newline>'' @
      ''                --bg-secondary: #2d2d2d;\<newline>'' @
      ''                --text-primary: #e0e0e0;\<newline>'' @
      ''                --text-secondary: #b0b0b0;\<newline>'' @
      ''                --border-color: #404040;\<newline>'' @
      ''                --accent: #8ab4f8;\<newline>'' @
      ''            }\<newline>'' @
      ''        }\<newline>'' @
      ''        * { margin: 0; padding: 0; box-sizing: border-box; }\<newline>'' @
      ''        body {\<newline>'' @
      ''            font-family: -apple-system, BlinkMacSystemFont, 'Segoe UI', Roboto, sans-serif;\<newline>'' @
      ''            background: var(--bg-primary);\<newline>'' @
      ''            color: var(--text-primary);\<newline>'' @
      ''            line-height: 1.6;\<newline>'' @
      ''            padding: 2rem;\<newline>'' @
      ''            max-width: 1000px;\<newline>'' @
      ''            margin: 0 auto;\<newline>'' @
      ''        }\<newline>'' @
      ''        h1 { color: var(--accent); margin-bottom: 0.5rem; word-break: break-word; }\<newline>'' @
      ''        h2 { margin-top: 2rem; margin-bottom: 1rem; border-bottom: 2px solid var(--border-color); padding-bottom: 0.5rem; }\<newline>'' @
      ''        .subtitle { color: var(--text-secondary); margin-bottom: 1rem; }\<newline>'' @
      ''        .description { background: var(--bg-secondary); padding: 1rem; border-radius: 8px; margin-bottom: 1.5rem; }\<newline>'' @
      ''        .badge { display: inline-block; padding: 2px 8px; border-radius: 4px; font-size: 0.85rem; margin-right: 0.5rem; }\<newline>'' @
      ''        .badge-ga { background: #e8f5e9; color: #2e7d32; }\<newline>'' @
      ''        .badge-beta { background: #fff3e0; color: #e65100; }\<newline>'' @
      ''        .badge-alpha { background: #e3f2fd; color: #1565c0; }\<newline>'' @
      ''        .badge-deprecated { background: #ffebee; color: #c62828; }\<newline>'' @
      ''        .list { list-style: none; }\<newline>'' @
      ''        .list li { padding: 0.75rem 1rem; border-bottom: 1px solid var(--border-color); }\<newline>'' @
      ''        .list li:hover { background: var(--bg-secondary); }\<newline>'' @
      ''        .list a { color: var(--accent); text-decoration: none; }\<newline>'' @
      ''        .list a:hover { text-decoration: underline; }\<newline>'' @
      ''        .role-title { color: var(--text-secondary); font-size: 0.9rem; }\<newline>'' @
      ''        .count { color: var(--text-secondary); font-size: 0.9rem; }\<newline>'' @
      ''        .back-link { display: inline-block; margin-bottom: 1rem; color: var(--accent); text-decoration: none; }\<newline>'' @
      ''        .back-link:hover { text-decoration: underline; }\<newline>'' @
      ''        @media (prefers-color-scheme: dark) {\<newline>'' @
      ''            .badge-ga { background: #1b3d20; color: #81c784; }\<newline>'' @
      ''            .badge-beta { background: #3d2f1f; color: #ffb74d; }\<newline>'' @
      ''            .badge-alpha { background: #1e3a5f; color: #90caf9; }\<newline>'' @
      ''            .badge-deprecated { background: #3d1f1f; color: #ef9a9a; }\<newline>'' @
      ''        }\<newline>'' @
      ''    </style>\<newline>'' @
      ''</head>\<newline>'' @
      ''<body>\<newline>'' @
      ''    <a href="/" class="back-link">&larr; Back to Search</a>\<newline>''\<close>

definition generate_html_head :: "string \<Rightarrow> string \<Rightarrow> string \<Rightarrow> string" where
  \<open>generate_html_head title description canonical_path =
     ''<!DOCTYPE html>\<newline>'' @
     ''<html lang="en">\<newline>'' @
     ''<head>\<newline>'' @
     ''    <meta charset="UTF-8">\<newline>'' @
     ''    <meta name="viewport" content="width=device-width, initial-scale=1.0">\<newline>'' @
     ''    <title>'' @ escape title @ '' | GCP IAM Reference</title>\<newline>'' @
     ''    <meta name="description" content="'' @ escape description @ ''">\<newline>'' @
     ''    <link rel="canonical" href="'' @ BASE_URL @ canonical_path @ ''">\<newline>'' @
     ''    <meta property="og:title" content="'' @ escape title @ ''">\<newline>'' @
     ''    <meta property="og:description" content="'' @ escape description @ ''">\<newline>'' @
     ''    <meta property="og:url" content="'' @ BASE_URL @ canonical_path @ ''">\<newline>'' @
     ''    <meta property="og:type" content="website">\<newline>'' @
     head_style\<close>

definition generate_html_footer :: string where
  \<open>generate_html_footer =
     ''\<newline>'' @
     ''    <footer style="margin-top: 3rem; padding-top: 1rem; '' @
     ''border-top: 1px solid var(--border-color); color: var(--text-secondary); '' @
     ''font-size: 0.85rem;">\<newline>'' @
     ''        <p>Data sourced from '' @
     ''<a href="https://cloud.google.com/iam/docs/understanding-roles" '' @
     ''style="color: var(--accent);">Google Cloud IAM API</a>.\<newline>'' @
     ''        Updated daily.</p>\<newline>'' @
     ''    </footer>\<newline>'' @
     ''</body>\<newline>'' @
     ''</html>''\<close>

text \<open>
  \<open>get_stage_badge(stage)\<close>. The argument is \<open>None\<close> or a string; \<open>None\<close> and the empty
  string are the two falsy values of \<open>if stage\<close> and \<open>stage or "GA"\<close>.
\<close>

definition truthy :: "string option \<Rightarrow> bool" where
  "truthy stage = (case stage of None \<Rightarrow> False | Some s \<Rightarrow> s \<noteq> [])"

definition get_stage_badge :: "string option \<Rightarrow> string" where
  \<open>get_stage_badge stage =
     (let stage_lower = (if truthy stage then str_lower (dict_get stage []) else ''ga'');
          badge_class =
            (if stage_lower \<in> set [''ga'', ''beta'', ''alpha'', ''deprecated'']
             then ''badge-'' @ stage_lower else ''badge-ga'')
      in ''<span class="badge '' @ badge_class @ ''">'' @
         escape (if truthy stage then dict_get stage [] else ''GA'') @ ''</span>'')\<close>

text \<open>The body of the loop over the granting roles of a permission page.\<close>

definition permission_page_item :: "role_summary \<Rightarrow> string" where
  \<open>permission_page_item role =
     (let role_path = str_replace (s_name role) ''roles/'' []
      in ''    <li>\<newline>'' @
         ''        <a href="/roles/'' @ quote role_path @ ''">'' @ escape (s_name role) @
         ''</a>\<newline>'' @
         ''        '' @ get_stage_badge (Some (s_stage role)) @ ''\<newline>'' @
         ''        <span class="role-title">'' @ escape (s_title role) @ ''</span>\<newline>'' @
         ''    </li>\<newline>'')\<close>

text \<open>The page up to the list of roles: the head and the block appended to it.\<close>

definition permission_page_top :: "permission \<Rightarrow> string" where
  \<open>permission_page_top perm_data =
     (let name = p_name perm_data;
          service = p_service perm_data;
          resource = p_resource perm_data;
          action = p_action perm_data;
          roles = p_granted_by_roles perm_data;
          title = name;
          description =
            ''GCP IAM permission '' @ name @ '' - granted by '' @ str_nat (length roles) @
            '' roles. Service: '' @ service @ '', Resource: '' @ resource @
            '', Action: '' @ action @ ''.'';
          html = generate_html_head title description (''/permissions/'' @ quote name)
      in html @
         ''\<newline>'' @
         ''    <h1>'' @ escape name @ ''</h1>\<newline>'' @
         ''    <p class="subtitle">GCP IAM Permission</p>\<newline>'' @
         ''\<newline>'' @
         ''    <div class="description">\<newline>'' @
         ''        <p><strong>Service:</strong> '' @ escape service @ ''</p>\<newline>'' @
         ''        <p><strong>Resource:</strong> '' @ escape resource @ ''</p>\<newline>'' @
         ''        <p><strong>Action:</strong> '' @ escape action @ ''</p>\<newline>'' @
         ''    </div>\<newline>'' @
         ''\<newline>'' @
         ''    <h2>Roles that grant this permission <span class="count">('' @
         str_nat (length roles) @ '')</span></h2>\<newline>'')\<close>

definition generate_permission_page :: "permission \<Rightarrow> string" where
  \<open>generate_permission_page perm_data =
     (let roles = p_granted_by_roles perm_data;
          html = permission_page_top perm_data;
          html =
            (if roles \<noteq> [] then
               (let html = html @ ''<ul class="list">\<newline>'';
                    html = foldl (\<lambda>html role. html @ permission_page_item role) html
                             (sort_key s_name roles)
                in html @ ''</ul>\<newline>'')
             else html @ ''<p style="color: var(--text-secondary);">'' @
               ''No predefined roles grant this permission directly.</p>\<newline>'')
      in html @ generate_html_footer)\<close>

text \<open>The body of the loop over the permissions of a role page.\<close>

definition role_page_item :: "string \<Rightarrow> string" where
  \<open>role_page_item perm =
     ''    <li><a href="/permissions/'' @ quote perm @ ''">'' @ escape perm @
     ''</a></li>\<newline>''\<close>

text \<open>The meta description of a role page (the conditional expression of the source).\<close>

definition meta_description :: "string \<Rightarrow> string \<Rightarrow> string" where
  "meta_description title description =
     (if 150 < length description then title @ '' - '' @ take 150 description @ ''...''
      else title @ '' - '' @ description)"

text \<open>The block appended to the head of a role page, up to the list of permissions.\<close>

definition role_page_intro :: "role_data \<Rightarrow> string" where
  \<open>role_page_intro role_data =
     (let name = rd_name role_data;
          title = rd_title role_data;
          description = rd_description role_data;
          stage = rd_stage role_data;
          permissions = rd_included_permissions role_data
      in ''\<newline>'' @
         ''    <h1>'' @ escape name @ ''</h1>\<newline>'' @
         ''    <p class="subtitle">'' @ escape title @ '' '' @ get_stage_badge (Some stage) @
         ''</p>\<newline>'' @
         ''\<newline>'' @
         ''    <div class="description">\<newline>'' @
         ''        <p>'' @ escape description @ ''</p>\<newline>'' @
         ''    </div>\<newline>'' @
         ''\<newline>'' @
         ''    <h2>Included Permissions <span class="count">('' @
         str_nat (length permissions) @ '')</span></h2>\<newline>'')\<close>

definition generate_role_page ::
  "role_data \<Rightarrow> (string \<rightharpoonup> role_summary list) \<Rightarrow> string" where
  \<open>generate_role_page role_data permission_to_roles =
     (let name = rd_name role_data;
          title = rd_title role_data;
          description = rd_description role_data;
          permissions = rd_included_permissions role_data;
          role_path = str_replace name ''roles/'' [];
          html = generate_html_head (title @ '' ('' @ name @ '')'')
                   (meta_description title description) (''/roles/'' @ quote role_path);
          html = html @ role_page_intro role_data;
          html =
            (if permissions \<noteq> [] then
               (let html = html @ ''<ul class="list">\<newline>'';
                    html = foldl (\<lambda>html perm. html @ role_page_item perm) html
                             (sort permissions)
                in html @ ''</ul>\<newline>'')
             else html @ ''<p style="color: var(--text-secondary);">'' @
               ''This role has no permissions.</p>\<newline>'')
      in html @ generate_html_footer)\<close>

section \<open>The sitemap\<close>






section \<open>File names chosen by \<open>main\<close>\<close>

definition permission_filename :: "permission \<Rightarrow> string" where
  "permission_filename perm = str_replace (p_name perm) ''/'' ''_'' @ ''.html''"

definition role_filename :: "role_data \<Rightarrow> string" where
  "role_filename role =
     (let role_name = str_replace (rd_name role) ''roles/'' []
      in str_replace role_name ''/'' ''_'' @ ''.html'')"

section \<open>Reference definitions, in the words of the specification\<close>

text \<open>
  The segment number \<open>n\<close> (from 0) of a name, the segments being separated by dots; the
  empty string when the name has no such segment.
\<close>

fun dot_segment :: "nat \<Rightarrow> string \<Rightarrow> string" where
  "dot_segment n [] = []"
| "dot_segment n (c # cs) =
     (if c = CHR ''.'' then (case n of 0 \<Rightarrow> [] | Suc k \<Rightarrow> dot_segment k cs)
      else (case n of 0 \<Rightarrow> c # dot_segment 0 cs | Suc k \<Rightarrow> dot_segment n cs))"

text \<open>A list of segments joined by dots, the inverse reading of the same notion.\<close>

fun dot_join :: "string list \<Rightarrow> string" where
  "dot_join [] = []"
| "dot_join [s] = s"
| "dot_join (s # t # ts) = s @ CHR ''.'' # dot_join (t # ts)"

text \<open>
  The summaries of the roles whose grant list contains \<open>P\<close>, in the order of the role
  list: once for each such role (\<open>grantors_claimed\<close>), and once for each occurrence of
  \<open>P\<close> in the grant list of each role (\<open>grantors\<close>).
\<close>

definition grantors_claimed :: "role list \<Rightarrow> string \<Rightarrow> role_summary list" where
  "grantors_claimed roles P = map summary (filter (\<lambda>role. P \<in> set (included role)) roles)"

definition grantors :: "role list \<Rightarrow> string \<Rightarrow> role_summary list" where
  "grantors roles P =
     concat (map (\<lambda>role. replicate (count_list (included role) P) (summary role)) roles)"

text \<open>
  The capital of a small letter of the ASCII alphabet, read from a table; every other
  character is its own.
\<close>

definition capital_of :: "char \<Rightarrow> char" where
  "capital_of c =
     (case map_of (zip ''abcdefghijklmnopqrstuvwxyz'' ''ABCDEFGHIJKLMNOPQRSTUVWXYZ'') c of
        None \<Rightarrow> c
      | Some u \<Rightarrow> u)"

text \<open>
  \<open>spells s w\<close>: the string \<open>s\<close> is the word \<open>w\<close>, itself in small letters, with each of its
  letters written small or capital.
\<close>

definition spells :: "string \<Rightarrow> string \<Rightarrow> bool" where
  "spells s w = list_all2 (\<lambda>c x. c = x \<or> c = capital_of x) s w"

text \<open>
  The badge class and the displayed text of a stage: the class is the one of the four
  words that the stage spells, in whatever case, and \<open>ga\<close> when it spells none of them or
  is absent.
\<close>

definition stage_class :: "string option \<Rightarrow> string" where
  "stage_class stage =
     (case stage of
        None \<Rightarrow> ''ga''
      | Some s \<Rightarrow>
          if spells s ''ga'' then ''ga''
          else if spells s ''beta'' then ''beta''
          else if spells s ''alpha'' then ''alpha''
          else if spells s ''deprecated'' then ''deprecated''
          else ''ga'')"

definition stage_text :: "string option \<Rightarrow> string" where
  "stage_text stage = (case stage of None \<Rightarrow> ''GA'' | Some s \<Rightarrow> if s = [] then ''GA'' else s)"

text \<open>A name with a leading prefix stripped; a name without the prefix is unchanged.\<close>

definition strip_prefix :: "string \<Rightarrow> string \<Rightarrow> string" where
  "strip_prefix p s = (if prefix p s then drop (length p) s else s)"

text \<open>\<open>occurs p s\<close>: the string \<open>p\<close> occurs somewhere in \<open>s\<close>.\<close>

fun occurs :: "string \<Rightarrow> string \<Rightarrow> bool" where
  "occurs p [] = (p = [])"
| "occurs p (c # cs) = (prefix p (c # cs) \<or> occurs p cs)"

definition slashes_to_underscores :: "string \<Rightarrow> string" where
  "slashes_to_underscores s = map (\<lambda>c. if c = CHR ''/'' then CHR ''_'' else c) s"

definition role_filename_claimed :: "string \<Rightarrow> string" where
  "role_filename_claimed name = slashes_to_underscores (strip_prefix ''roles/'' name) @ ''.html''"

text \<open>The meta description without a separator between title and description.\<close>

definition meta_description_claimed :: "string \<Rightarrow> string \<Rightarrow> string" where
  "meta_description_claimed title description =
     title @ (if 150 < length description then take 150 description @ ''...'' else description)"




section \<open>Closed forms\<close>

text \<open>What the three loops of \<open>build_dataset\<close> compute, without the loops.\<close>

definition entry_of :: "(string \<rightharpoonup> role_summary list) \<Rightarrow> string \<Rightarrow> permission" where
  "entry_of m perm =
     \<lparr>p_name = perm, p_service = dot_segment 0 perm, p_resource = dot_segment 1 perm,
      p_action = dot_segment 2 perm, p_granted_by_roles = dict_get (m perm) []\<rparr>"

definition all_granted :: "role list \<Rightarrow> string set" where
  "all_granted roles = (\<Union>role\<in>set roles. set (included role))"

definition built :: "role list \<Rightarrow> string \<Rightarrow> dataset" where
  "built roles utcnow =
     \<lparr>ds_roles = map role_record roles,
      ds_permissions =
        map (\<lambda>perm. \<lparr>p_name = perm, p_service = dot_segment 0 perm,
                     p_resource = dot_segment 1 perm, p_action = dot_segment 2 perm,
                     p_granted_by_roles = grantors roles perm\<rparr>)
          (sorted_list_of_set (all_granted roles)),
      ds_metadata =
        \<lparr>md_total_roles = length roles,
         md_total_permissions = card (all_granted roles),
         md_last_updated = utcnow @ ''Z'',
         md_source = ''Google Cloud IAM API''\<rparr>\<rparr>"

section \<open>Concrete inputs\<close>






text \<open>
  A permission granted by two roles that are not in the order of their names, and a role
  whose permissions are not in order.
\<close>

definition perm_two :: permission where
  "perm_two =
     \<lparr>p_name = ''compute.instances.get'', p_service = ''compute'', p_resource = ''instances'',
      p_action = ''get'',
      p_granted_by_roles =
        [\<lparr>s_name = ''roles/viewer'', s_title = ''Viewer'', s_stage = ''GA''\<rparr>,
         \<lparr>s_name = ''roles/admin'', s_title = ''Admin <all>'', s_stage = ''BETA''\<rparr>]\<rparr>"

definition role_two :: role_data where
  "role_two =
     \<lparr>rd_name = ''roles/viewer'', rd_title = ''Viewer'', rd_description = ''Read access'',
      rd_stage = ''GA'',
      rd_included_permissions = [''storage.buckets.list'', ''compute.instances.get''],
      rd_etag = []\<rparr>"

declare str_nat.simps [simp del]

section \<open>Properties of \<open>build_dataset\<close>\<close>

subsection \<open>Splitting a name at its dots\<close>

lemma str_split_not_Nil: "str_split s sep \<noteq> []"
  by (induction s) (auto split: list.splits)

lemma str_split_segment:
  "(if i < length (str_split s (CHR ''.'')) then str_split s (CHR ''.'') ! i else []) =
     dot_segment i s"
proof (induction s arbitrary: i)
  case Nil
  then show ?case by (cases i) auto
next
  case (Cons c cs)
  show ?case
  proof (cases "c = CHR ''.''")
    case True
    then show ?thesis using Cons[of "i - 1"] by (cases i) auto
  next
    case False
    obtain p ps where ps: "str_split cs (CHR ''.'') = p # ps"
      using str_split_not_Nil by (cases "str_split cs (CHR ''.'')") auto
    show ?thesis
    proof (cases i)
      case 0
      then show ?thesis using False ps Cons[of 0] by auto
    next
      case (Suc k)
      then show ?thesis using False ps Cons[of i] by auto
    qed
  qed
qed

lemma dot_segment_join:
  "\<forall>s\<in>set segs. CHR ''.'' \<notin> set s \<Longrightarrow>
     dot_segment i (dot_join segs) = (if i < length segs then segs ! i else [])"
proof (induction segs arbitrary: i rule: dot_join.induct)
  case 1
  then show ?case by simp
next
  case (2 s)
  then have "CHR ''.'' \<notin> set s" by simp
  then show ?case
    by (induction s) (auto split: nat.splits)
next
  case (3 s t ts)
  then have s: "CHR ''.'' \<notin> set s" and rest: "\<forall>u\<in>set (t # ts). CHR ''.'' \<notin> set u"
    by simp_all
  have "dot_segment i (s @ CHR ''.'' # dot_join (t # ts)) =
          (case i of 0 \<Rightarrow> s | Suc k \<Rightarrow> dot_segment k (dot_join (t # ts)))"
    using s by (induction s) (auto split: nat.splits)
  then show ?case
    using "3.IH"[OF rest] by (auto split: nat.splits)
qed

lemma permission_record_eq: "permission_record m perm = Inr (entry_of m perm)"
proof -
  let ?parts = "str_split perm (CHR ''.'')"
  have ne: "?parts \<noteq> []" by (rule str_split_not_Nil)
  then have l0: "0 < length ?parts" by simp
  have s0: "(if ?parts \<noteq> [] then getitem ?parts 0 else Inr []) = Inr (dot_segment 0 perm)"
    using str_split_segment[of 0 perm] ne l0 by (simp add: getitem_def)
  have s1: "(if 1 < length ?parts then getitem ?parts 1 else Inr []) = Inr (dot_segment 1 perm)"
    using str_split_segment[of 1 perm] by (auto simp: getitem_def split: if_splits)
  have s2: "(if 2 < length ?parts then getitem ?parts 2 else Inr []) = Inr (dot_segment 2 perm)"
    using str_split_segment[of 2 perm] by (auto simp: getitem_def split: if_splits)
  show ?thesis
    unfolding permission_record_def Let_def s0 s1 s2 by (simp add: entry_of_def)
qed

lemma permissions_loop_eq:
  "permissions_loop m acc ps = Inr (acc @ map (entry_of m) ps)"
  by (induction ps arbitrary: acc) (simp_all add: permission_record_eq)

lemma fst_add_grants: "fst (foldl (add_grant role) st ps) = fst st \<union> set ps"
  by (induction ps arbitrary: st) (auto simp: add_grant_def Let_def)

lemma snd_add_grants:
  "dict_get (snd (foldl (add_grant role) st ps) P) [] =
     dict_get (snd st P) [] @ replicate (count_list ps P) (summary role)"
proof (induction ps arbitrary: st)
  case Nil
  then show ?case by simp
next
  case (Cons a ps)
  show ?case
    by (simp add: Cons.IH) (simp add: add_grant_def Let_def dict_get_def replicate_append_same)
qed

lemma fst_scan_roles: "fst (foldl scan_role st roles) = fst st \<union> all_granted roles"
  by (induction roles arbitrary: st) (auto simp: scan_role_def fst_add_grants all_granted_def)

lemma snd_scan_roles:
  "dict_get (snd (foldl scan_role st roles) P) [] = dict_get (snd st P) [] @ grantors roles P"
  by (induction roles arbitrary: st) (auto simp: scan_role_def snd_add_grants grantors_def)

lemma finite_all_granted: "finite (all_granted roles)"
  by (simp add: all_granted_def)

lemma build_dataset_eq: "build_dataset roles utcnow = Inr (built roles utcnow)"
proof -
  let ?st = "foldl scan_role ({}, Map.empty) roles"
  have f: "fst ?st = all_granted roles"
    by (simp add: fst_scan_roles)
  have g: "dict_get (snd ?st P) [] = grantors roles P" for P
    using snd_scan_roles[of "({}, Map.empty)" roles P] by (simp add: dict_get_def)
  have e: "entry_of (snd ?st) = (\<lambda>perm. \<lparr>p_name = perm, p_service = dot_segment 0 perm,
                     p_resource = dot_segment 1 perm, p_action = dot_segment 2 perm,
                     p_granted_by_roles = grantors roles perm\<rparr>)"
    by (rule ext) (simp add: entry_of_def g)
  show ?thesis
    unfolding build_dataset_def Let_def f permissions_loop_eq e
    by (simp add: built_def)
qed




lemma grantors_distinct:
  "\<forall>role\<in>set roles. distinct (included role) \<Longrightarrow> grantors roles P = grantors_claimed roles P"
proof (induction roles)
  case Nil
  then show ?case by (simp add: grantors_def grantors_claimed_def)
next
  case (Cons r rs)
  then have d: "distinct (included r)" by simp
  have "count_list xs P = (if P \<in> set xs then 1 else 0)" if "distinct xs" for xs :: "string list"
    using that by (induction xs) auto
  then have "count_list (included r) P = (if P \<in> set (included r) then 1 else 0)"
    using d by blast
  then show ?case using Cons by (simp add: grantors_def grantors_claimed_def)
qed


lemma grantors_empty_iff: "grantors roles P = [] \<longleftrightarrow> P \<notin> all_granted roles"
  by (induction roles) (auto simp: grantors_def all_granted_def count_list_0_iff)

text \<open>
  Claim C9. In the dataset that \<open>build_dataset\<close> returns, no permission record has an
  empty \<open>granted_by_roles\<close> list.
\<close>

theorem build_dataset_granted_nonempty:
  "\<exists>d. build_dataset roles utcnow = Inr d \<and>
       [] \<notin> set (map p_granted_by_roles (ds_permissions d))"
proof -
  have "grantors roles P \<noteq> []" if "P \<in> set (sorted_list_of_set (all_granted roles))" for P
    using that finite_all_granted[of roles] by (simp add: grantors_empty_iff)
  then have "[] \<notin> set (map (grantors roles) (sorted_list_of_set (all_granted roles)))"
    by force
  then have "[] \<notin> set (map p_granted_by_roles (ds_permissions (built roles utcnow)))"
    by (simp add: built_def comp_def)
  then show ?thesis using build_dataset_eq[of roles utcnow] by blast
qed

text \<open>
  Claim C3. For every permission name, building its record raises no error, and the
  record has the first dot-separated segment of the name as service, the second as
  resource and the third as action, the empty string standing for a segment the name does
  not have; later segments are not read. So \<open>compute.instances.get\<close> gives
  \<open>compute\<close>, \<open>instances\<close>, \<open>get\<close>, \<open>iam\<close> gives \<open>iam\<close> and two empty strings, and
  \<open>a.b.c.d\<close> gives \<open>a\<close>, \<open>b\<close>, \<open>c\<close>. The records of every dataset are built so.
\<close>

theorem permission_record_segments:
  "permission_record m perm =
     Inr \<lparr>p_name = perm, p_service = dot_segment 0 perm, p_resource = dot_segment 1 perm,
          p_action = dot_segment 2 perm, p_granted_by_roles = dict_get (m perm) []\<rparr> \<and>
   permission_record m ''compute.instances.get'' =
     Inr \<lparr>p_name = ''compute.instances.get'', p_service = ''compute'',
          p_resource = ''instances'', p_action = ''get'',
          p_granted_by_roles = dict_get (m ''compute.instances.get'') []\<rparr> \<and>
   permission_record m ''iam'' =
     Inr \<lparr>p_name = ''iam'', p_service = ''iam'', p_resource = [], p_action = [],
          p_granted_by_roles = dict_get (m ''iam'') []\<rparr> \<and>
   permission_record m ''a.b.c.d'' =
     Inr \<lparr>p_name = ''a.b.c.d'', p_service = ''a'', p_resource = ''b'', p_action = ''c'',
          p_granted_by_roles = dict_get (m ''a.b.c.d'') []\<rparr> \<and>
   (\<exists>d. build_dataset roles utcnow = Inr d \<and>
        map (\<lambda>p. (p_service p, p_resource p, p_action p)) (ds_permissions d) =
        map (\<lambda>p. (dot_segment 0 (p_name p), dot_segment 1 (p_name p),
                   dot_segment 2 (p_name p))) (ds_permissions d))"
  by (simp add: permission_record_eq entry_of_def build_dataset_eq built_def comp_def)

section \<open>Properties of the renderers and of the file names\<close>

lemma foldl_append_concat: "foldl (\<lambda>acc x. acc @ f x) acc xs = acc @ concat (map f xs)"
  by (induction xs arbitrary: acc) simp_all

lemma str_replace_char:
  "str_replace s [c] [d] = map (\<lambda>x. if x = c then d else x) s"
  by (induction s) auto

lemma str_replace_absent: "old \<noteq> [] \<Longrightarrow> \<not> occurs old s \<Longrightarrow> str_replace s old new = s"
  by (induction s) simp_all

lemma str_replace_prefix:
  "old \<noteq> [] \<Longrightarrow> str_replace (old @ s) old new = new @ str_replace s old new"
  by (cases old) simp_all

lemma remove_roles_prefix:
  assumes "\<not> occurs ''roles/'' (strip_prefix ''roles/'' name)"
  shows "str_replace name ''roles/'' [] = strip_prefix ''roles/'' name"
proof (cases "prefix ''roles/'' name")
  case True
  then obtain rest where n: "name = ''roles/'' @ rest"
    by (auto simp: prefix_def)
  have "\<not> occurs ''roles/'' rest"
    using assms unfolding n strip_prefix_def by simp
  then have "str_replace rest ''roles/'' [] = rest"
    by (simp add: str_replace_absent)
  then show ?thesis
    unfolding n using str_replace_prefix[of "''roles/''" rest "[]"]
    by (simp add: strip_prefix_def)
next
  case False
  then show ?thesis
    using assms by (simp add: strip_prefix_def str_replace_absent)
qed

lemma permission_filename_eq:
  "permission_filename perm = slashes_to_underscores (p_name perm) @ ''.html''"
  by (simp add: permission_filename_def slashes_to_underscores_def str_replace_char)

lemma role_filename_eq:
  "\<not> occurs ''roles/'' (strip_prefix ''roles/'' (rd_name role)) \<Longrightarrow>
     role_filename role = role_filename_claimed (rd_name role)"
  by (simp add: role_filename_def role_filename_claimed_def remove_roles_prefix
      slashes_to_underscores_def str_replace_char)

lemma role_filename_example:
  "role_filename \<lparr>rd_name = ''roles/compute.admin'', rd_title = t, rd_description = d,
     rd_stage = s, rd_included_permissions = ps, rd_etag = e\<rparr> = ''compute.admin.html''"
  by (simp add: role_filename_def)

text \<open>
  Claim C5, at a role name in which \<open>roles/\<close> occurs a second time: \<open>main\<close> removes
  every occurrence, not the leading one only, so the file is \<open>a_b.html\<close> where the name
  without its prefix, slashes replaced, gives \<open>a_roles_b.html\<close>. For permissions, and for
  role names that contain \<open>roles/\<close> as a prefix only, the file names are the stated ones
  (\<open>permission_filename_eq\<close>, \<open>role_filename_eq\<close>).
\<close>

theorem role_filename_repeated_prefix:
  "role_filename \<lparr>rd_name = ''roles/a/roles/b'', rd_title = [], rd_description = [],
     rd_stage = ''GA'', rd_included_permissions = [], rd_etag = []\<rparr> = ''a_b.html'' \<and>
   role_filename_claimed ''roles/a/roles/b'' = ''a_roles_b.html''"
  by (simp add: role_filename_def role_filename_claimed_def strip_prefix_def
      slashes_to_underscores_def)

subsection \<open>Lower case, by the table of letters\<close>

lemma of_char_less_256: "(of_char c :: nat) < 256"
proof -
  have "(of_char c :: nat) mod 256 < 256" by simp
  then show ?thesis by (simp only: of_char_mod_256)
qed

lemma char_lower_eq_iff:
  assumes "97 \<le> (of_char x :: nat)" "(of_char x :: nat) \<le> 122"
  shows "char_lower c = x \<longleftrightarrow> c = x \<or> c = char_of (of_char x - 32 :: nat)"
proof -
  define n k where "n = (of_char c :: nat)" and "k = (of_char x :: nat)"
  have n: "n < 256" unfolding n_def by (rule of_char_less_256)
  have k: "97 \<le> k" "k \<le> 122" using assms by (simp_all add: k_def)
  have cx: "c = x \<longleftrightarrow> n = k"
    by (simp add: n_def k_def)
  have "char_of (k - 32) = c \<longleftrightarrow> take_bit 8 (k - 32) = n"
    unfolding n_def by (rule char_of_eq_iff)
  moreover have "take_bit 8 (k - 32) = k - 32"
    using k by (simp add: take_bit_eq_mod)
  ultimately have cc: "c = char_of (k - 32) \<longleftrightarrow> n = k - 32"
    by auto
  have "char_of (n + 32) = x \<longleftrightarrow> take_bit 8 (n + 32) = k"
    unfolding k_def by (rule char_of_eq_iff)
  then have up: "char_of (n + 32) = x \<longleftrightarrow> (n + 32) mod 256 = k"
    by (simp add: take_bit_eq_mod)
  have lo: "char_lower c =
      (if (65 \<le> n \<and> n \<le> 90) \<or> (192 \<le> n \<and> n \<le> 222 \<and> n \<noteq> 215)
       then char_of (n + 32) else c)"
    by (simp add: char_lower_def n_def Let_def)
  show ?thesis
  proof (cases "(65 \<le> n \<and> n \<le> 90) \<or> (192 \<le> n \<and> n \<le> 222 \<and> n \<noteq> 215)")
    case True
    then have m: "(n + 32) mod 256 = n + 32" by auto
    have "char_lower c = char_of (n + 32)"
      unfolding lo by (rule if_P[OF True])
    then have "char_lower c = x \<longleftrightarrow> n + 32 = k"
      using up m by simp
    also have "\<dots> \<longleftrightarrow> n = k \<or> n = k - 32"
      using True k by auto
    finally show ?thesis
      using cx cc by (simp add: k_def)
  next
    case False
    have "char_lower c = c"
      unfolding lo by (rule if_not_P[OF False])
    then have "char_lower c = x \<longleftrightarrow> n = k"
      using cx by simp
    also have "\<dots> \<longleftrightarrow> n = k \<or> n = k - 32"
      using False k by auto
    finally show ?thesis
      using cx cc by (simp add: k_def)
  qed
qed

lemma capital_of_small:
  "x \<in> set ''abcdefghijklmnopqrstuvwxyz'' \<Longrightarrow>
     97 \<le> (of_char x :: nat) \<and> (of_char x :: nat) \<le> 122 \<and>
     char_of (of_char x - 32 :: nat) = capital_of x"
  unfolding capital_of_def by (elim set_ConsD[elim_format] disjE) (simp_all add: char_of_eq_iff)

lemma char_lower_capital:
  assumes "x \<in> set ''abcdefghijklmnopqrstuvwxyz''"
  shows "char_lower c = x \<longleftrightarrow> c = x \<or> c = capital_of x"
proof -
  note s = capital_of_small[OF assms]
  from s have "char_lower c = x \<longleftrightarrow> c = x \<or> c = char_of (of_char x - 32 :: nat)"
    by (intro char_lower_eq_iff) simp_all
  also have "char_of (of_char x - 32 :: nat) = capital_of x"
    using s by blast
  finally show ?thesis .
qed

lemma str_lower_spells:
  "set w \<subseteq> set ''abcdefghijklmnopqrstuvwxyz'' \<Longrightarrow> str_lower s = w \<longleftrightarrow> spells s w"
proof (induction w arbitrary: s)
  case Nil
  then show ?case by (simp add: str_lower_def spells_def)
next
  case (Cons x w)
  from Cons.prems have x: "x \<in> set ''abcdefghijklmnopqrstuvwxyz''"
    and w: "set w \<subseteq> set ''abcdefghijklmnopqrstuvwxyz''"
    by (simp_all only: list.set insert_subset)
  have ih: "map char_lower t = w \<longleftrightarrow> list_all2 (\<lambda>c x. c = x \<or> c = capital_of x) t w" for t
    using Cons.IH[OF w, of t] by (simp only: str_lower_def spells_def)
  have cl: "char_lower c = x \<longleftrightarrow> c = x \<or> c = capital_of x" for c
    by (rule char_lower_capital[OF x])
  show ?case
  proof (cases s)
    case Nil
    then show ?thesis by (simp only: str_lower_def spells_def list.map list_all2_Nil) simp
  next
    case (Cons c t)
    then show ?thesis
      by (simp only: str_lower_def spells_def list.map list_all2_Cons list.inject cl ih)
  qed
qed

lemma stage_class_lower:
  "stage_class (Some s) =
     (if str_lower s \<in> set [''ga'', ''beta'', ''alpha'', ''deprecated''] then str_lower s
      else ''ga'')"
proof -
  have g: "spells s ''ga'' \<longleftrightarrow> str_lower s = ''ga''"
    by (rule str_lower_spells[symmetric]) simp
  have b: "spells s ''beta'' \<longleftrightarrow> str_lower s = ''beta''"
    by (rule str_lower_spells[symmetric]) simp
  have a: "spells s ''alpha'' \<longleftrightarrow> str_lower s = ''alpha''"
    by (rule str_lower_spells[symmetric]) simp
  have d: "spells s ''deprecated'' \<longleftrightarrow> str_lower s = ''deprecated''"
    by (rule str_lower_spells[symmetric]) simp
  show ?thesis
    unfolding stage_class_def option.case g b a d by auto
qed

text \<open>
  Claim C4. For every stage, absent or not, the badge is a \<open>span\<close> whose class is one of
  \<open>ga\<close>, \<open>beta\<close>, \<open>alpha\<close>, \<open>deprecated\<close>: the one of these four words that the stage
  spells, its letters small or capital, and \<open>ga\<close> for every other or absent stage. The
  text shown is the (escaped) stage, and \<open>GA\<close> when the stage is absent or empty. So
  \<open>Beta\<close> has the class \<open>beta\<close> and \<open>ALPHA\<close> the class \<open>alpha\<close>, while \<open>EAP\<close> has the class
  \<open>ga\<close> and keeps its text.
\<close>

theorem get_stage_badge_class:
  \<open>get_stage_badge stage =
     ''<span class="badge badge-'' @ stage_class stage @ ''">'' @ escape (stage_text stage) @
     ''</span>'' \<and>
   stage_class stage \<in> {''ga'', ''beta'', ''alpha'', ''deprecated''} \<and>
   get_stage_badge (Some ''Beta'') = ''<span class="badge badge-beta">Beta</span>'' \<and>
   get_stage_badge (Some ''ALPHA'') = ''<span class="badge badge-alpha">ALPHA</span>'' \<and>
   get_stage_badge (Some ''deprecated'') =
     ''<span class="badge badge-deprecated">deprecated</span>'' \<and>
   get_stage_badge (Some ''EAP'') = ''<span class="badge badge-ga">EAP</span>'' \<and>
   get_stage_badge (Some ''<b>'') = ''<span class="badge badge-ga">&lt;b&gt;</span>'' \<and>
   get_stage_badge (Some []) = ''<span class="badge badge-ga">GA</span>'' \<and>
   get_stage_badge None = ''<span class="badge badge-ga">GA</span>''\<close>
proof -
  have general: \<open>get_stage_badge stage =
     ''<span class="badge badge-'' @ stage_class stage @ ''">'' @ escape (stage_text stage) @
     ''</span>''\<close>
  proof (cases stage)
    case None
    then show ?thesis
      by (simp add: get_stage_badge_def truthy_def stage_class_def stage_text_def)
  next
    case (Some s)
    show ?thesis
    proof (cases "s = []")
      case True
      then show ?thesis using Some
        by (simp add: get_stage_badge_def truthy_def stage_class_lower stage_text_def
            str_lower_def)
    next
      case False
      then show ?thesis using Some
        by (simp add: get_stage_badge_def truthy_def stage_class_lower stage_text_def
            dict_get_def)
    qed
  qed
  have one_of_four: "stage_class stage \<in> {''ga'', ''beta'', ''alpha'', ''deprecated''}"
    by (cases stage) (simp_all add: stage_class_def)
  have instances:
    \<open>get_stage_badge (Some ''Beta'') = ''<span class="badge badge-beta">Beta</span>''\<close>
    \<open>get_stage_badge (Some ''ALPHA'') = ''<span class="badge badge-alpha">ALPHA</span>''\<close>
    \<open>get_stage_badge (Some ''deprecated'') =
       ''<span class="badge badge-deprecated">deprecated</span>''\<close>
    \<open>get_stage_badge (Some ''EAP'') = ''<span class="badge badge-ga">EAP</span>''\<close>
    \<open>get_stage_badge (Some ''<b>'') = ''<span class="badge badge-ga">&lt;b&gt;</span>''\<close>
    \<open>get_stage_badge (Some []) = ''<span class="badge badge-ga">GA</span>''\<close>
    \<open>get_stage_badge None = ''<span class="badge badge-ga">GA</span>''\<close>
    by (simp_all add: get_stage_badge_def truthy_def dict_get_def str_lower_def char_lower_def
        escape_def char_of_eq_iff)
  from general one_of_four instances show ?thesis by blast
qed

lemma permission_page_two:
  \<open>generate_permission_page perm_two =
     permission_page_top perm_two @
     ''<ul class="list">\<newline>'' @
     ''    <li>\<newline>'' @
     ''        <a href="/roles/admin">roles/admin</a>\<newline>'' @
     ''        <span class="badge badge-beta">BETA</span>\<newline>'' @
     ''        <span class="role-title">Admin &lt;all&gt;</span>\<newline>'' @
     ''    </li>\<newline>'' @
     ''    <li>\<newline>'' @
     ''        <a href="/roles/viewer">roles/viewer</a>\<newline>'' @
     ''        <span class="badge badge-ga">GA</span>\<newline>'' @
     ''        <span class="role-title">Viewer</span>\<newline>'' @
     ''    </li>\<newline>'' @
     ''</ul>\<newline>'' @
     generate_html_footer\<close>
proof -
  have s: "sort_key s_name (p_granted_by_roles perm_two) =
      [\<lparr>s_name = ''roles/admin'', s_title = ''Admin <all>'', s_stage = ''BETA''\<rparr>,
       \<lparr>s_name = ''roles/viewer'', s_title = ''Viewer'', s_stage = ''GA''\<rparr>]"
    by (simp add: perm_two_def)
  have a: \<open>permission_page_item
      \<lparr>s_name = ''roles/admin'', s_title = ''Admin <all>'', s_stage = ''BETA''\<rparr> =
     ''    <li>\<newline>'' @
     ''        <a href="/roles/admin">roles/admin</a>\<newline>'' @
     ''        <span class="badge badge-beta">BETA</span>\<newline>'' @
     ''        <span class="role-title">Admin &lt;all&gt;</span>\<newline>'' @
     ''    </li>\<newline>''\<close>
    by (simp add: permission_page_item_def quote_def quote_byte_def utf8_def always_safe_def
        escape_def get_stage_badge_def truthy_def dict_get_def str_lower_def char_lower_def
        char_of_eq_iff)
  have v: \<open>permission_page_item
      \<lparr>s_name = ''roles/viewer'', s_title = ''Viewer'', s_stage = ''GA''\<rparr> =
     ''    <li>\<newline>'' @
     ''        <a href="/roles/viewer">roles/viewer</a>\<newline>'' @
     ''        <span class="badge badge-ga">GA</span>\<newline>'' @
     ''        <span class="role-title">Viewer</span>\<newline>'' @
     ''    </li>\<newline>''\<close>
    by (simp add: permission_page_item_def quote_def quote_byte_def utf8_def always_safe_def
        escape_def get_stage_badge_def truthy_def dict_get_def str_lower_def char_lower_def
        char_of_eq_iff)
  have n: "p_granted_by_roles perm_two \<noteq> []"
    by (simp add: perm_two_def)
  show ?thesis
    unfolding generate_permission_page_def Let_def foldl_append_concat s
    using n by (simp add: a v)
qed

lemma role_page_two:
  \<open>generate_role_page role_two permission_to_roles =
     generate_html_head ''Viewer (roles/viewer)'' ''Viewer - Read access'' ''/roles/viewer'' @
     role_page_intro role_two @
     ''<ul class="list">\<newline>'' @
     ''    <li><a href="/permissions/compute.instances.get">compute.instances.get</a></li>'' @
     ''\<newline>'' @
     ''    <li><a href="/permissions/storage.buckets.list">storage.buckets.list</a></li>'' @
     ''\<newline>'' @
     ''</ul>\<newline>'' @
     generate_html_footer\<close>
proof -
  have s: "sort (rd_included_permissions role_two) =
      [''compute.instances.get'', ''storage.buckets.list'']"
    by (simp add: role_two_def)
  have c: \<open>role_page_item ''compute.instances.get'' =
     ''    <li><a href="/permissions/compute.instances.get">compute.instances.get</a></li>'' @
     ''\<newline>''\<close>
    by (simp add: role_page_item_def quote_def quote_byte_def utf8_def always_safe_def
        escape_def char_of_eq_iff)
  have b: \<open>role_page_item ''storage.buckets.list'' =
     ''    <li><a href="/permissions/storage.buckets.list">storage.buckets.list</a></li>'' @
     ''\<newline>''\<close>
    by (simp add: role_page_item_def quote_def quote_byte_def utf8_def always_safe_def
        escape_def char_of_eq_iff)
  have q: "quote ''viewer'' = ''viewer''"
    by (simp add: quote_def quote_byte_def utf8_def always_safe_def char_of_eq_iff)
  have h: "generate_html_head (rd_title role_two @ '' ('' @ rd_name role_two @ '')'')
      (meta_description (rd_title role_two) (rd_description role_two))
      (''/roles/'' @ quote (str_replace (rd_name role_two) ''roles/'' [])) =
     generate_html_head ''Viewer (roles/viewer)'' ''Viewer - Read access'' ''/roles/viewer''"
    by (simp add: role_two_def meta_description_def q)
  have n: "rd_included_permissions role_two \<noteq> []"
    by (simp add: role_two_def)
  show ?thesis
    unfolding generate_role_page_def Let_def foldl_append_concat s h
    using n by (simp add: c b)
qed

text \<open>
  Claim C6. The permission page lists the granting roles in a rearrangement of the stored
  list that is sorted by role name, and the role page lists the permissions of the role in
  sorted order; each item is written out here, with the link to the role or permission and
  its (escaped) name. Both renderers sort when they render, whatever the order of the
  lists they are given: the page of a permission stored with \<open>roles/viewer\<close> before
  \<open>roles/admin\<close> lists \<open>roles/admin\<close> first, and the page of a role stored with
  \<open>storage.buckets.list\<close> before \<open>compute.instances.get\<close> lists the latter first.
\<close>

theorem pages_list_sorted:
  \<open>(\<exists>rs. mset rs = mset (p_granted_by_roles perm_data) \<and> sorted (map s_name rs) \<and>
     generate_permission_page perm_data =
       permission_page_top perm_data @
       (if rs = [] then
          ''<p style="color: var(--text-secondary);">'' @
          ''No predefined roles grant this permission directly.</p>\<newline>''
        else ''<ul class="list">\<newline>'' @
          concat (map (\<lambda>role.
            ''    <li>\<newline>'' @
            ''        <a href="/roles/'' @ quote (str_replace (s_name role) ''roles/'' []) @
            ''">'' @ escape (s_name role) @ ''</a>\<newline>'' @
            ''        '' @ get_stage_badge (Some (s_stage role)) @ ''\<newline>'' @
            ''        <span class="role-title">'' @ escape (s_title role) @
            ''</span>\<newline>'' @
            ''    </li>\<newline>'') rs) @
          ''</ul>\<newline>'') @
       generate_html_footer) \<and>
   (\<exists>ps. mset ps = mset (rd_included_permissions role_data) \<and> sorted ps \<and>
     generate_role_page role_data permission_to_roles =
       generate_html_head (rd_title role_data @ '' ('' @ rd_name role_data @ '')'')
         (meta_description (rd_title role_data) (rd_description role_data))
         (''/roles/'' @ quote (str_replace (rd_name role_data) ''roles/'' [])) @
       role_page_intro role_data @
       (if ps = [] then
          ''<p style="color: var(--text-secondary);">This role has no permissions.</p>\<newline>''
        else ''<ul class="list">\<newline>'' @
          concat (map (\<lambda>perm.
            ''    <li><a href="/permissions/'' @ quote perm @ ''">'' @ escape perm @
            ''</a></li>\<newline>'') ps) @
          ''</ul>\<newline>'') @
       generate_html_footer) \<and>
   generate_permission_page perm_two =
       permission_page_top perm_two @
       ''<ul class="list">\<newline>'' @
       ''    <li>\<newline>'' @
       ''        <a href="/roles/admin">roles/admin</a>\<newline>'' @
       ''        <span class="badge badge-beta">BETA</span>\<newline>'' @
       ''        <span class="role-title">Admin &lt;all&gt;</span>\<newline>'' @
       ''    </li>\<newline>'' @
       ''    <li>\<newline>'' @
       ''        <a href="/roles/viewer">roles/viewer</a>\<newline>'' @
       ''        <span class="badge badge-ga">GA</span>\<newline>'' @
       ''        <span class="role-title">Viewer</span>\<newline>'' @
       ''    </li>\<newline>'' @
       ''</ul>\<newline>'' @
       generate_html_footer \<and>
   generate_role_page role_two permission_to_roles =
       generate_html_head ''Viewer (roles/viewer)'' ''Viewer - Read access'' ''/roles/viewer'' @
       role_page_intro role_two @
       ''<ul class="list">\<newline>'' @
       ''    <li><a href="/permissions/compute.instances.get">compute.instances.get</a></li>'' @
       ''\<newline>'' @
       ''    <li><a href="/permissions/storage.buckets.list">storage.buckets.list</a></li>'' @
       ''\<newline>'' @
       ''</ul>\<newline>'' @
       generate_html_footer\<close>
proof (intro conjI)
  let ?rs = "sort_key s_name (p_granted_by_roles perm_data)"
  have e: "?rs = [] \<longleftrightarrow> p_granted_by_roles perm_data = []"
    by (metis mset_sort mset_zero_iff)
  have i: \<open>permission_page_item = (\<lambda>role.
            ''    <li>\<newline>'' @
            ''        <a href="/roles/'' @ quote (str_replace (s_name role) ''roles/'' []) @
            ''">'' @ escape (s_name role) @ ''</a>\<newline>'' @
            ''        '' @ get_stage_badge (Some (s_stage role)) @ ''\<newline>'' @
            ''        <span class="role-title">'' @ escape (s_title role) @
            ''</span>\<newline>'' @
            ''    </li>\<newline>'')\<close>
    by (rule ext) (simp add: permission_page_item_def)
  have p: \<open>generate_permission_page perm_data =
       permission_page_top perm_data @
       (if ?rs = [] then
          ''<p style="color: var(--text-secondary);">'' @
          ''No predefined roles grant this permission directly.</p>\<newline>''
        else ''<ul class="list">\<newline>'' @ concat (map permission_page_item ?rs) @
          ''</ul>\<newline>'') @
       generate_html_footer\<close>
    unfolding e by (simp add: generate_permission_page_def Let_def foldl_append_concat)
  have "mset ?rs = mset (p_granted_by_roles perm_data) \<and> sorted (map s_name ?rs)"
    by simp
  with p[unfolded i] show \<open>\<exists>rs. mset rs = mset (p_granted_by_roles perm_data) \<and>
     sorted (map s_name rs) \<and>
     generate_permission_page perm_data =
       permission_page_top perm_data @
       (if rs = [] then
          ''<p style="color: var(--text-secondary);">'' @
          ''No predefined roles grant this permission directly.</p>\<newline>''
        else ''<ul class="list">\<newline>'' @
          concat (map (\<lambda>role.
            ''    <li>\<newline>'' @
            ''        <a href="/roles/'' @ quote (str_replace (s_name role) ''roles/'' []) @
            ''">'' @ escape (s_name role) @ ''</a>\<newline>'' @
            ''        '' @ get_stage_badge (Some (s_stage role)) @ ''\<newline>'' @
            ''        <span class="role-title">'' @ escape (s_title role) @
            ''</span>\<newline>'' @
            ''    </li>\<newline>'') rs) @
          ''</ul>\<newline>'') @
       generate_html_footer\<close>
    by blast
next
  let ?ps = "sort (rd_included_permissions role_data)"
  have e: "?ps = [] \<longleftrightarrow> rd_included_permissions role_data = []"
    by (metis mset_sort mset_zero_iff)
  have i: \<open>role_page_item = (\<lambda>perm.
            ''    <li><a href="/permissions/'' @ quote perm @ ''">'' @ escape perm @
            ''</a></li>\<newline>'')\<close>
    by (rule ext) (simp add: role_page_item_def)
  have p: \<open>generate_role_page role_data permission_to_roles =
       generate_html_head (rd_title role_data @ '' ('' @ rd_name role_data @ '')'')
         (meta_description (rd_title role_data) (rd_description role_data))
         (''/roles/'' @ quote (str_replace (rd_name role_data) ''roles/'' [])) @
       role_page_intro role_data @
       (if ?ps = [] then
          ''<p style="color: var(--text-secondary);">This role has no permissions.</p>\<newline>''
        else ''<ul class="list">\<newline>'' @ concat (map role_page_item ?ps) @
          ''</ul>\<newline>'') @
       generate_html_footer\<close>
    unfolding e by (simp add: generate_role_page_def Let_def foldl_append_concat)
  have "mset ?ps = mset (rd_included_permissions role_data) \<and> sorted ?ps"
    using sorted_sort[of "rd_included_permissions role_data"] by simp
  with p[unfolded i] show \<open>\<exists>ps. mset ps = mset (rd_included_permissions role_data) \<and>
     sorted ps \<and>
     generate_role_page role_data permission_to_roles =
       generate_html_head (rd_title role_data @ '' ('' @ rd_name role_data @ '')'')
         (meta_description (rd_title role_data) (rd_description role_data))
         (''/roles/'' @ quote (str_replace (rd_name role_data) ''roles/'' [])) @
       role_page_intro role_data @
       (if ps = [] then
          ''<p style="color: var(--text-secondary);">This role has no permissions.</p>\<newline>''
        else ''<ul class="list">\<newline>'' @
          concat (map (\<lambda>perm.
            ''    <li><a href="/permissions/'' @ quote perm @ ''">'' @ escape perm @
            ''</a></li>\<newline>'') ps) @
          ''</ul>\<newline>'') @
       generate_html_footer\<close>
    by blast
next
  show \<open>generate_permission_page perm_two =
     permission_page_top perm_two @
     ''<ul class="list">\<newline>'' @
     ''    <li>\<newline>'' @
     ''        <a href="/roles/admin">roles/admin</a>\<newline>'' @
     ''        <span class="badge badge-beta">BETA</span>\<newline>'' @
     ''        <span class="role-title">Admin &lt;all&gt;</span>\<newline>'' @
     ''    </li>\<newline>'' @
     ''    <li>\<newline>'' @
     ''        <a href="/roles/viewer">roles/viewer</a>\<newline>'' @
     ''        <span class="badge badge-ga">GA</span>\<newline>'' @
     ''        <span class="role-title">Viewer</span>\<newline>'' @
     ''    </li>\<newline>'' @
     ''</ul>\<newline>'' @
     generate_html_footer\<close>
    by (rule permission_page_two)
next
  show \<open>generate_role_page role_two permission_to_roles =
     generate_html_head ''Viewer (roles/viewer)'' ''Viewer - Read access'' ''/roles/viewer'' @
     role_page_intro role_two @
     ''<ul class="list">\<newline>'' @
     ''    <li><a href="/permissions/compute.instances.get">compute.instances.get</a></li>'' @
     ''\<newline>'' @
     ''    <li><a href="/permissions/storage.buckets.list">storage.buckets.list</a></li>'' @
     ''\<newline>'' @
     ''</ul>\<newline>'' @
     generate_html_footer\<close>
    by (rule role_page_two)
qed

text \<open>
  Claim C8, as amended. The head of a role page is generated with the meta description
  made of the title, the separator \<open>" - "\<close>, and then the first 150 characters of the
  description followed by three dots when the description is longer than 150 characters,
  the whole description otherwise.
\<close>

theorem role_page_meta_description:
  "\<exists>path body. generate_role_page role_data permission_to_roles =
     generate_html_head (rd_title role_data @ '' ('' @ rd_name role_data @ '')'')
       (rd_title role_data @ '' - '' @
        (if 150 < length (rd_description role_data)
         then take 150 (rd_description role_data) @ ''...''
         else rd_description role_data))
       path @ body"
proof -
  have m: "meta_description t d =
      t @ '' - '' @ (if 150 < length d then take 150 d @ ''...'' else d)" for t d
    by (simp add: meta_description_def)
  have "\<exists>body. generate_role_page role_data permission_to_roles =
     generate_html_head (rd_title role_data @ '' ('' @ rd_name role_data @ '')'')
       (meta_description (rd_title role_data) (rd_description role_data))
       (''/roles/'' @ quote (str_replace (rd_name role_data) ''roles/'' [])) @ body"
    unfolding generate_role_page_def Let_def
    by (cases "rd_included_permissions role_data = []") (simp_all add: foldl_append_concat)
  then show ?thesis unfolding m by blast
qed

text \<open>
  Claim C8 as stated, the title directly followed by the description, fails: the source
  puts \<open>" - "\<close> between them.
\<close>

theorem meta_description_counterexample:
  "meta_description ''T'' ''D'' \<noteq> meta_description_claimed ''T'' ''D''"
  by (simp add: meta_description_def meta_description_claimed_def)

text \<open>
  Claim C10. \<open>generate_role_page\<close> returns the same page whatever its second argument.
\<close>

theorem generate_role_page_ignores_index:
  "generate_role_page role_data m1 = generate_role_page role_data m2"
  by (simp add: generate_role_page_def)

section \<open>Properties of the sitemap\<close>
















end
